theory Spec2Isabelle
  imports Main
begin

section \<open>The FastAPI demo charm (src/charm.py)\<close>

text \<open>
  The charm is one class, \<open>FastAPIDemoCharm\<close>, whose methods are handlers run by the
  orchestrator. Each handler is modelled as a function on a record of everything the
  handlers read or change: the configuration, the workload container as seen through the
  supervisor's API, the unit's status, opened ports and reported version, the database
  relation data and the peer relation's application data bag. A handler returns the
  outcome (normal return or the exception raised) together with the state as it is at
  that moment, since every change made before a \<open>raise\<close> stays in effect.
\<close>

subsection \<open>Exceptions and outcomes\<close>

datatype error =
    SystemExit int
  | KeyError string
  | ValueError
  | AttributeError
  | TypeError
  | UnboundLocalError
  | ModelError
  | RelationDataAccessError

datatype 'a result = Return 'a | Raise error

subsection \<open>Strings\<close>

text \<open>\<open>sep.join(parts)\<close>.\<close>

fun join :: "string \<Rightarrow> string list \<Rightarrow> string" where
  "join sep [] = []"
| "join sep [x] = x"
| "join sep (x # y # ys) = x @ sep @ join sep (y # ys)"

text \<open>\<open>s.split(c)\<close> for a one-character separator: the pieces between the separators,
  one piece (the whole string) when the separator does not occur.\<close>

fun split :: "char \<Rightarrow> string \<Rightarrow> string list" where
  "split c [] = [[]]"
| "split c (x # xs) =
     (if x = c then [] # split c xs
      else (case split c xs of
              [] \<Rightarrow> [[x]]
            | p # ps \<Rightarrow> (x # p) # ps))"

text \<open>\<open>str(n)\<close> of an integer, as the f-string \<open>f"--port={port}"\<close> formats it.\<close>

definition digit :: "nat \<Rightarrow> char" where
  "digit d = ''0123456789'' ! d"

fun str_nat :: "nat \<Rightarrow> string" where
  "str_nat n = (if n < 10 then [digit n] else str_nat (n div 10) @ [digit (n mod 10)])"

declare str_nat.simps [simp del]

definition str_int :: "int \<Rightarrow> string" where
  "str_int i = (if i < 0 then CHR ''-'' # str_nat (nat (- i)) else str_nat (nat i))"

subsection \<open>Data\<close>

text \<open>The unit status reported to the orchestrator; \<open>ActiveStatus()\<close> has the empty
  message.\<close>

datatype status =
    UnknownStatus
  | MaintenanceStatus string
  | WaitingStatus string
  | BlockedStatus string
  | ActiveStatus string

text \<open>A service entry of a Pebble layer or plan, with the five fields the charm writes,
  and a layer. Dictionaries are maps; the environment maps a variable to a value that
  may be \<open>None\<close>.\<close>

record service =
  svc_override :: string
  svc_summary :: string
  svc_command :: string
  svc_startup :: string
  svc_environment :: "string \<rightharpoonup> string option"

record layer =
  layer_summary :: string
  layer_description :: string
  layer_services :: "string \<rightharpoonup> service"

text \<open>What \<open>to_dict()\<close> gives for a layer or a plan: a dictionary in which a key is
  present only when its value is not empty. A layer has the keys \<open>summary\<close>,
  \<open>description\<close> and \<open>services\<close>; a plan has no summary and no description (the unit
  test compares the plan's dictionary with one whose only key is \<open>services\<close>).\<close>

record document =
  doc_summary :: "string option"
  doc_description :: "string option"
  doc_services :: "(string \<rightharpoonup> service) option"

text \<open>Documents kept in the peer data bag. The bag stores what \<open>json.dumps\<close> wrote and
  \<open>json.loads\<close> reads it back, so the model keeps the decoded document under each key.
  Objects are association lists with distinct keys; numbers are integers, the only
  numbers the charm writes.\<close>

datatype json =
    JNull
  | JBool bool
  | JInt int
  | JStr string
  | JArr "json list"
  | JObj "(string \<times> json) list"

text \<open>The state the handlers work on.
  \<^item> \<open>config_server_port\<close>: \<open>self.config["server-port"]\<close>;
  \<^item> \<open>can_connect\<close>, \<open>plan\<close>: the supervisor's reachability and the services of its
    current plan; \<open>added_layers\<close> and \<open>restarted\<close> record every \<open>add_layer\<close> and
    \<open>restart\<close> call, in order;
  \<^item> \<open>unit_status\<close>, \<open>opened_ports\<close>, \<open>workload_version\<close>: what the unit has reported
    (\<open>None\<close>: no version reported);
  \<^item> \<open>api_version\<close>: the answer of the workload's \<open>GET /version\<close>, \<open>None\<close> when the
    request raises;
  \<^item> \<open>database_relations\<close>: \<open>self.database.fetch_relation_data()\<close>, relation id and
    data of each relation, in the dictionary's order;
  \<^item> \<open>peers\<close>: the application data bag of the peer relation, \<open>None\<close> when
    \<open>get_relation(PEER_NAME)\<close> is \<open>None\<close>;
  \<^item> \<open>is_leader\<close>: whether the unit is the application's leader, the only unit the
    orchestrator lets write the application data bag.\<close>

record charm =
  config_server_port :: int
  can_connect :: bool
  plan :: "string \<rightharpoonup> service"
  added_layers :: "(string \<times> layer) list"
  restarted :: "string list"
  unit_status :: status
  opened_ports :: "int set"
  workload_version :: "string option"
  api_version :: "string option"
  database_relations :: "(nat \<times> (string \<times> string) list) list"
  peers :: "(string \<rightharpoonup> json) option"
  is_leader :: bool

text \<open>The event of the \<open>get-db-info\<close> action: its parameter and the documents passed to
  \<open>set_results\<close>, in order.\<close>

record action_event =
  show_password :: bool
  results :: "(string \<rightharpoonup> string option) list"

definition PEER_NAME :: string where
  "PEER_NAME = ''fastapi-peer''"

definition pebble_service_name :: string where
  "pebble_service_name = ''fastapi-service''"

subsection \<open>The supervisor and the unit, as the charm uses them\<close>

definition layer_to_dict :: "layer \<Rightarrow> document" where
  "layer_to_dict l =
     \<lparr>doc_summary = (if layer_summary l = [] then None else Some (layer_summary l)),
      doc_description =
        (if layer_description l = [] then None else Some (layer_description l)),
      doc_services =
        (if layer_services l = Map.empty then None else Some (layer_services l))\<rparr>"

definition plan_to_dict :: "(string \<rightharpoonup> service) \<Rightarrow> document" where
  "plan_to_dict p =
     \<lparr>doc_summary = None,
      doc_description = None,
      doc_services = (if p = Map.empty then None else Some p)\<rparr>"

text \<open>\<open>d.get("services", {})\<close> and \<open>d["services"]\<close>.\<close>

definition get_services :: "document \<Rightarrow> (string \<rightharpoonup> service)" where
  "get_services d = (case doc_services d of None \<Rightarrow> Map.empty | Some m \<Rightarrow> m)"

definition getitem_services :: "document \<Rightarrow> (string \<rightharpoonup> service) result" where
  "getitem_services d =
     (case doc_services d of
        None \<Rightarrow> Raise (KeyError ''services'')
      | Some m \<Rightarrow> Return m)"

text \<open>\<open>container.add_layer(label, layer, combine=True)\<close>: every service of the layer
  has \<open>override: replace\<close>, so it takes the place of the plan's service of that name; the
  plan's other services stay.\<close>

definition add_layer :: "string \<Rightarrow> layer \<Rightarrow> charm \<Rightarrow> charm" where
  "add_layer label l s =
     s\<lparr>plan := plan s ++ layer_services l,
       added_layers := added_layers s @ [(label, l)]\<rparr>"

definition restart :: "string \<Rightarrow> charm \<Rightarrow> charm" where
  "restart name s = s\<lparr>restarted := restarted s @ [name]\<rparr>"

text \<open>\<open>unit.set_ports(port)\<close>: the ports that are open and not asked for are closed,
  then the port is opened. Opening a port outside 1 to 65535 is refused with a
  \<open>ModelError\<close>, and the port is not opened.\<close>

definition set_ports :: "int \<Rightarrow> charm \<Rightarrow> unit result \<times> charm" where
  "set_ports port s =
     (if 1 \<le> port \<and> port \<le> 65535 then (Return (), s\<lparr>opened_ports := {port}\<rparr>)
      else (Raise ModelError, s\<lparr>opened_ports := {}\<rparr>))"

definition set_workload_version :: "string \<Rightarrow> charm \<Rightarrow> charm" where
  "set_workload_version v s = s\<lparr>workload_version := Some v\<rparr>"

subsection \<open>Database relation data\<close>

text \<open>The body of the loop of \<open>fetch_postgres_relation_data\<close> for one non-empty
  \<open>data\<close>: \<open>data["endpoints"]\<close> is read first, split at the colon and unpacked into two
  names, then \<open>username\<close> and \<open>password\<close> are read.\<close>

definition db_data_of :: "(string \<times> string) list \<Rightarrow> (string \<rightharpoonup> string) result" where
  "db_data_of data =
     (case map_of data ''endpoints'' of
        None \<Rightarrow> Raise (KeyError ''endpoints'')
      | Some endpoints \<Rightarrow>
          (case split CHR '':'' endpoints of
             [host, port] \<Rightarrow>
               (case map_of data ''username'' of
                  None \<Rightarrow> Raise (KeyError ''username'')
                | Some username \<Rightarrow>
                    (case map_of data ''password'' of
                       None \<Rightarrow> Raise (KeyError ''password'')
                     | Some password \<Rightarrow>
                         Return [''db_host'' \<mapsto> host,
                                 ''db_port'' \<mapsto> port,
                                 ''db_username'' \<mapsto> username,
                                 ''db_password'' \<mapsto> password]))
           | _ \<Rightarrow> Raise ValueError))"

text \<open>The loop: empty data is skipped, the first non-empty one decides. \<open>None\<close>: the loop
  ran to its end.\<close>

fun first_relation_data ::
  "(nat \<times> (string \<times> string) list) list \<Rightarrow> (string \<rightharpoonup> string) result option" where
  "first_relation_data [] = None"
| "first_relation_data ((rid, data) # rest) =
     (if data = [] then first_relation_data rest else Some (db_data_of data))"

definition fetch_postgres_relation_data :: "charm \<Rightarrow> (string \<rightharpoonup> string) result \<times> charm" where
  "fetch_postgres_relation_data s =
     (case first_relation_data (database_relations s) of
        Some r \<Rightarrow> (r, s)
      | None \<Rightarrow>
          (Raise (SystemExit 0),
           s\<lparr>unit_status := WaitingStatus ''Waiting for database relation''\<rparr>))"

subsection \<open>The service definition\<close>

text \<open>The dictionary literal of \<open>app_environment\<close>, and the property itself.\<close>

definition environment_of :: "(string \<rightharpoonup> string) \<Rightarrow> (string \<rightharpoonup> string option)" where
  "environment_of db_data =
     [''DEMO_SERVER_DB_HOST'' \<mapsto> db_data ''db_host'',
      ''DEMO_SERVER_DB_PORT'' \<mapsto> db_data ''db_port'',
      ''DEMO_SERVER_DB_USER'' \<mapsto> db_data ''db_username'',
      ''DEMO_SERVER_DB_PASSWORD'' \<mapsto> db_data ''db_password'']"

definition app_environment :: "charm \<Rightarrow> (string \<rightharpoonup> string option) result \<times> charm" where
  "app_environment s =
     (case fetch_postgres_relation_data s of
        (Raise e, s') \<Rightarrow> (Raise e, s')
      | (Return db_data, s') \<Rightarrow> (Return (environment_of db_data), s'))"

definition command_of :: "int \<Rightarrow> string" where
  "command_of port =
     join '' '' [''uvicorn'', ''api_demo_server.app:app'', ''--host=0.0.0.0'',
                 ''--port='' @ str_int port]"

definition layer_of :: "string \<Rightarrow> (string \<rightharpoonup> string option) \<Rightarrow> layer" where
  "layer_of command env =
     \<lparr>layer_summary = ''FastAPI demo service'',
      layer_description = ''pebble config layer for FastAPI demo server'',
      layer_services =
        [pebble_service_name \<mapsto>
           \<lparr>svc_override = ''replace'',
            svc_summary = ''fastapi demo'',
            svc_command = command,
            svc_startup = ''enabled'',
            svc_environment = env\<rparr>]\<rparr>"

definition pebble_layer :: "charm \<Rightarrow> layer result \<times> charm" where
  "pebble_layer s =
     (let command = command_of (config_server_port s) in
      case app_environment s of
        (Raise e, s') \<Rightarrow> (Raise e, s')
      | (Return env, s') \<Rightarrow> (Return (layer_of command env), s'))"

subsection \<open>Reconciliation\<close>

text \<open>The \<open>version\<close> property: the workload is asked only when the supervisor is
  reachable and knows the service; a failed request gives the empty string.\<close>

definition version :: "charm \<Rightarrow> string" where
  "version s =
     (if can_connect s \<and> pebble_service_name \<in> dom (plan s) then
        (case api_version s of Some v \<Rightarrow> v | None \<Rightarrow> '''')
      else '''')"

text \<open>The body of \<open>if services != new_layer["services"]\<close>: \<open>self._pebble_layer\<close> is
  evaluated again for \<open>add_layer\<close>.\<close>

definition apply_new_layer :: "charm \<Rightarrow> unit result \<times> charm" where
  "apply_new_layer s =
     (case pebble_layer s of
        (Raise e, s') \<Rightarrow> (Raise e, s')
      | (Return l, s') \<Rightarrow>
          (Return (), restart pebble_service_name (add_layer ''fastapi_demo'' l s')))"

definition update_layer_and_restart :: "charm \<Rightarrow> unit result \<times> charm" where
  "update_layer_and_restart s =
     (let s1 = s\<lparr>unit_status := MaintenanceStatus ''Assembling pod spec''\<rparr> in
      if can_connect s1 then
        (case pebble_layer s1 of
           (Raise e, s2) \<Rightarrow> (Raise e, s2)
         | (Return l, s2) \<Rightarrow>
             (let new_layer = layer_to_dict l;
                  services = get_services (plan_to_dict (plan s2))
              in case getitem_services new_layer of
                   Raise e \<Rightarrow> (Raise e, s2)
                 | Return new_services \<Rightarrow>
                     (case (if services \<noteq> new_services then apply_new_layer s2
                            else (Return (), s2)) of
                        (Raise e, s3) \<Rightarrow> (Raise e, s3)
                      | (Return _, s3) \<Rightarrow>
                          (Return (),
                           (set_workload_version (version s3) s3)
                             \<lparr>unit_status := ActiveStatus ''''\<rparr>))))
      else
        (Return (),
         s1\<lparr>unit_status := WaitingStatus ''Waiting for Pebble in workload container''\<rparr>))"

subsection \<open>Configuration\<close>

definition handle_ports :: "charm \<Rightarrow> unit result \<times> charm" where
  "handle_ports s = set_ports (config_server_port s) s"

definition on_config_changed :: "charm \<Rightarrow> unit result \<times> charm" where
  "on_config_changed s =
     (let port = config_server_port s in
      if port = 22 then
        (Return (),
         s\<lparr>unit_status := BlockedStatus ''Invalid port number, 22 is reserved for SSH''\<rparr>)
      else
        (case handle_ports s of
           (Raise e, s1) \<Rightarrow> (Raise e, s1)
         | (Return _, s1) \<Rightarrow> update_layer_and_restart s1))"

subsection \<open>Database notifications\<close>

definition on_database_created :: "charm \<Rightarrow> unit result \<times> charm" where
  "on_database_created s = update_layer_and_restart s"

definition on_database_relation_removed :: "charm \<Rightarrow> unit result \<times> charm" where
  "on_database_relation_removed s =
     (Raise (SystemExit 0),
      s\<lparr>unit_status := WaitingStatus ''Waiting for database relation''\<rparr>)"

subsection \<open>Peer state\<close>

text \<open>\<open>self.peers.data[self.app][key] = json.dumps(data)\<close>: the relation is dereferenced
  without a check, and the write to the application data bag is refused with a
  \<open>RelationDataAccessError\<close> unless the unit is the leader.\<close>

definition set_peer_data :: "string \<Rightarrow> json \<Rightarrow> charm \<Rightarrow> unit result \<times> charm" where
  "set_peer_data key data s =
     (case peers s of
        None \<Rightarrow> (Raise AttributeError, s)
      | Some bag \<Rightarrow>
          if is_leader s then (Return (), s\<lparr>peers := Some (bag(key \<mapsto> data))\<rparr>)
          else (Raise RelationDataAccessError, s))"

text \<open>\<open>get_peer_data\<close> checks the relation first; a missing or empty entry reads as the
  empty mapping. Every unit may read the application data bag of a peer relation.\<close>

definition get_peer_data :: "string \<Rightarrow> charm \<Rightarrow> json" where
  "get_peer_data key s =
     (case peers s of
        None \<Rightarrow> JObj []
      | Some bag \<Rightarrow> (case bag key of None \<Rightarrow> JObj [] | Some data \<Rightarrow> data))"

text \<open>\<open>d.get(key, default)\<close> on a decoded document: only an object has \<open>get\<close>.\<close>

definition json_get :: "json \<Rightarrow> string \<Rightarrow> json \<Rightarrow> json result" where
  "json_get d key dflt =
     (case d of
        JObj kvs \<Rightarrow> (case map_of kvs key of None \<Rightarrow> Return dflt | Some v \<Rightarrow> Return v)
      | _ \<Rightarrow> Raise AttributeError)"

text \<open>\<open>int(v)\<close> on a decoded value. What the built-in \<open>int\<close> makes of a string is not
  part of the charm; it is the parameter \<open>int_str\<close>, and nothing below depends on it.\<close>

definition int_of_json :: "(string \<Rightarrow> int result) \<Rightarrow> json \<Rightarrow> int result" where
  "int_of_json int_str v =
     (case v of
        JInt n \<Rightarrow> Return n
      | JBool b \<Rightarrow> Return (if b then 1 else 0)
      | JStr s \<Rightarrow> int_str s
      | _ \<Rightarrow> Raise TypeError)"

text \<open>The handler \<open>_count\<close>.\<close>

definition count :: "(string \<Rightarrow> int result) \<Rightarrow> charm \<Rightarrow> unit result \<times> charm" where
  "count int_str s =
     (let unit_stats = get_peer_data ''unit_stats'' s in
      case json_get unit_stats ''started_counter'' (JInt 0) of
        Raise e \<Rightarrow> (Raise e, s)
      | Return counter \<Rightarrow>
          (case int_of_json int_str counter of
             Raise e \<Rightarrow> (Raise e, s)
           | Return n \<Rightarrow>
               set_peer_data ''unit_stats'' (JObj [(''started_counter'', JInt (n + 1))]) s))"

subsection \<open>The get-db-info action\<close>

text \<open>\<open>event.set_results(output)\<close>.\<close>

definition set_results :: "(string \<rightharpoonup> string option) \<Rightarrow> action_event \<Rightarrow> action_event" where
  "set_results output ev = ev\<lparr>results := results ev @ [output]\<rparr>"

text \<open>The \<open>try\<close> statement: \<open>SystemExit\<close> is caught, the output is set and the exception
  raised again; the \<open>finally\<close> clause sets the results. After any other exception
  \<open>output\<close> has no value, so the \<open>finally\<close> clause itself raises.\<close>

definition on_get_db_info_action ::
  "action_event \<Rightarrow> charm \<Rightarrow> unit result \<times> action_event \<times> charm" where
  "on_get_db_info_action ev s =
     (case fetch_postgres_relation_data s of
        (Return db_data, s') \<Rightarrow>
          (let output = [''db-host'' \<mapsto> db_data ''db_host'',
                         ''db-port'' \<mapsto> db_data ''db_port''];
               output' =
                 (if show_password ev then
                    output ++ [''db-username'' \<mapsto> db_data ''db_username'',
                               ''db-password'' \<mapsto> db_data ''db_password'']
                  else output)
           in (Return (), set_results output' ev, s'))
      | (Raise (SystemExit c), s') \<Rightarrow>
          (Raise (SystemExit c),
           set_results [''result'' \<mapsto> Some ''No database connected''] ev, s')
      | (Raise e, s') \<Rightarrow> (Raise UnboundLocalError, ev, s'))"

subsection \<open>Sample units\<close>

text \<open>A leader unit with the default configuration (port 8000), a reachable supervisor
  whose plan is still empty, no database relation and no peer relation; the connection
  data a PostgreSQL relation supplies, and the connection record read from it; the same
  unit with that relation; the related unit once its service definition is in the plan;
  and the related unit with a supervisor whose plan holds a service of another name.\<close>

definition initial_unit :: charm where
  "initial_unit =
     \<lparr>config_server_port = 8000,
      can_connect = True,
      plan = Map.empty,
      added_layers = [],
      restarted = [],
      unit_status = UnknownStatus,
      opened_ports = {},
      workload_version = None,
      api_version = Some ''1.0.0'',
      database_relations = [],
      peers = None,
      is_leader = True\<rparr>"

definition postgres_data :: "(string \<times> string) list" where
  "postgres_data =
     [(''endpoints'', ''10.1.2.3:5432''), (''username'', ''names''), (''password'', ''secret'')]"

definition postgres_db_data :: "string \<rightharpoonup> string" where
  "postgres_db_data =
     [''db_host'' \<mapsto> ''10.1.2.3'', ''db_port'' \<mapsto> ''5432'',
      ''db_username'' \<mapsto> ''names'', ''db_password'' \<mapsto> ''secret'']"

definition related_unit :: charm where
  "related_unit = initial_unit\<lparr>database_relations := [(0, postgres_data)]\<rparr>"

definition applied_unit :: charm where
  "applied_unit =
     related_unit
       \<lparr>plan := layer_services (layer_of (command_of 8000) (environment_of postgres_db_data))\<rparr>"

text \<open>A stand-in for \<open>int\<close> on strings, for the sample units, whose data bags hold no
  strings.\<close>

definition refuse_str :: "string \<Rightarrow> int result" where
  "refuse_str s = Raise ValueError"

definition other_service :: service where
  "other_service =
     \<lparr>svc_override = ''replace'',
      svc_summary = ''metrics exporter'',
      svc_command = ''exporter --listen=0.0.0.0:9100'',
      svc_startup = ''enabled'',
      svc_environment = Map.empty\<rparr>"

definition shared_unit :: charm where
  "shared_unit = related_unit\<lparr>plan := [''exporter'' \<mapsto> other_service]\<rparr>"

section \<open>Properties\<close>

subsection \<open>Rendering and relation data\<close>

lemma command_of_8000:
  "command_of 8000 = ''uvicorn api_demo_server.app:app --host=0.0.0.0 --port=8000''"
  by (simp add: command_of_def str_int_def str_nat.simps digit_def)

lemma first_relation_data_empty:
  "\<forall>rel \<in> set rels. snd rel = [] \<Longrightarrow> first_relation_data rels = None"
  by (induction rels rule: first_relation_data.induct) auto

lemma fetch_no_data:
  "first_relation_data (database_relations s) = None \<Longrightarrow>
   fetch_postgres_relation_data s =
     (Raise (SystemExit 0), s\<lparr>unit_status := WaitingStatus ''Waiting for database relation''\<rparr>)"
  by (simp add: fetch_postgres_relation_data_def)

lemma fetch_some:
  "first_relation_data (database_relations s) = Some r \<Longrightarrow>
   fetch_postgres_relation_data s = (r, s)"
  by (simp add: fetch_postgres_relation_data_def)

text \<open>The service definition is decided by the relation data alone: no data aborts with
  the status set, malformed data raises, and well-formed data gives the layer without
  touching the state.\<close>

lemma pebble_layer_cases:
  "pebble_layer s =
     (case first_relation_data (database_relations s) of
        None \<Rightarrow>
          (Raise (SystemExit 0),
           s\<lparr>unit_status := WaitingStatus ''Waiting for database relation''\<rparr>)
      | Some (Raise e) \<Rightarrow> (Raise e, s)
      | Some (Return d) \<Rightarrow>
          (Return (layer_of (command_of (config_server_port s)) (environment_of d)), s))"
  by (simp add: pebble_layer_def app_environment_def fetch_postgres_relation_data_def
           split: option.splits result.splits)

lemma pebble_layer_Return_iff:
  "pebble_layer s = (Return l, s') \<longleftrightarrow>
   (\<exists>d. first_relation_data (database_relations s) = Some (Return d) \<and>
        l = layer_of (command_of (config_server_port s)) (environment_of d)) \<and> s' = s"
  by (auto simp: pebble_layer_cases split: option.splits result.splits)

lemma pebble_layer_status:
  "pebble_layer s = (Return l, s') \<Longrightarrow>
   pebble_layer (s\<lparr>unit_status := st\<rparr>) = (Return l, s\<lparr>unit_status := st\<rparr>)"
  by (auto simp: pebble_layer_Return_iff)

lemma get_services_plan [simp]: "get_services (plan_to_dict p) = p"
  by (simp add: get_services_def plan_to_dict_def)

lemma layer_services_nonempty: "layer_services (layer_of c e) \<noteq> Map.empty"
  by (simp add: layer_of_def)

lemma getitem_services_layer_of [simp]:
  "getitem_services (layer_to_dict (layer_of c e)) = Return (layer_services (layer_of c e))"
  by (simp add: getitem_services_def layer_to_dict_def layer_services_nonempty)

lemma db_data_of_postgres_data: "db_data_of postgres_data = Return postgres_db_data"
  by (simp add: db_data_of_def postgres_data_def postgres_db_data_def)

lemma first_relation_data_related:
  "first_relation_data (database_relations related_unit) = Some (Return postgres_db_data)"
  by (simp add: related_unit_def initial_unit_def db_data_of_postgres_data)
     (simp add: postgres_data_def)

lemma pebble_layer_related:
  "pebble_layer related_unit =
     (Return (layer_of (command_of 8000) (environment_of postgres_db_data)), related_unit)"
  by (simp add: pebble_layer_cases first_relation_data_related)
     (simp add: related_unit_def initial_unit_def)

lemma pebble_layer_applied:
  "pebble_layer applied_unit =
     (Return (layer_of (command_of 8000) (environment_of postgres_db_data)), applied_unit)"
proof -
  have "database_relations applied_unit = database_relations related_unit"
    and "config_server_port applied_unit = 8000"
    by (simp_all add: applied_unit_def related_unit_def initial_unit_def)
  then show ?thesis
    by (simp add: pebble_layer_cases first_relation_data_related)
qed

subsection \<open>The four outcomes of a reconciliation\<close>

lemma update_unreachable:
  "\<not> can_connect s \<Longrightarrow>
   update_layer_and_restart s =
     (Return (), s\<lparr>unit_status := WaitingStatus ''Waiting for Pebble in workload container''\<rparr>)"
  by (simp add: update_layer_and_restart_def)

lemma update_no_data:
  "can_connect s \<Longrightarrow> first_relation_data (database_relations s) = None \<Longrightarrow>
   update_layer_and_restart s =
     (Raise (SystemExit 0), s\<lparr>unit_status := WaitingStatus ''Waiting for database relation''\<rparr>)"
  by (simp add: update_layer_and_restart_def pebble_layer_cases)

lemma update_bad_data:
  "can_connect s \<Longrightarrow> first_relation_data (database_relations s) = Some (Raise e) \<Longrightarrow>
   update_layer_and_restart s =
     (Raise e, s\<lparr>unit_status := MaintenanceStatus ''Assembling pod spec''\<rparr>)"
  by (simp add: update_layer_and_restart_def pebble_layer_cases)

lemma update_reachable:
  assumes "can_connect s" and "pebble_layer s = (Return l, s')"
  shows "update_layer_and_restart s =
     (Return (),
      (if plan s \<noteq> layer_services l then
         s\<lparr>plan := plan s ++ layer_services l,
           added_layers := added_layers s @ [(''fastapi_demo'', l)],
           restarted := restarted s @ [pebble_service_name],
           workload_version := Some (case api_version s of Some v \<Rightarrow> v | None \<Rightarrow> ''''),
           unit_status := ActiveStatus ''''\<rparr>
       else
         s\<lparr>workload_version := Some (version s),
           unit_status := ActiveStatus ''''\<rparr>))"
proof -
  from assms(2) obtain d where
    l: "l = layer_of (command_of (config_server_port s)) (environment_of d)"
    by (auto simp: pebble_layer_Return_iff)
  let ?s1 = "s\<lparr>unit_status := MaintenanceStatus ''Assembling pod spec''\<rparr>"
  have p1: "pebble_layer ?s1 = (Return l, ?s1)"
    using assms(2) by (rule pebble_layer_status)
  have known: "pebble_service_name \<in> dom (plan s ++ layer_services l)"
    by (simp add: l layer_of_def)
  show ?thesis
    using assms(1) p1 known
    by (simp add: update_layer_and_restart_def apply_new_layer_def l add_layer_def restart_def
        set_workload_version_def version_def)
qed

lemma update_opened_ports:
  "opened_ports (snd (update_layer_and_restart s)) = opened_ports s"
proof (cases "can_connect s")
  case False
  then show ?thesis by (simp add: update_unreachable)
next
  case True
  show ?thesis
  proof (cases "first_relation_data (database_relations s)")
    case None
    with True show ?thesis by (simp add: update_no_data)
  next
    case (Some r)
    show ?thesis
    proof (cases r)
      case (Raise e)
      with True Some show ?thesis by (simp add: update_bad_data)
    next
      case (Return d)
      with Some have "pebble_layer s =
        (Return (layer_of (command_of (config_server_port s)) (environment_of d)), s)"
        by (simp add: pebble_layer_cases)
      with True show ?thesis by (simp add: update_reachable)
    qed
  qed
qed

lemma update_Return:
  assumes "can_connect s" and "update_layer_and_restart s = (Return (), s1)"
  shows "\<exists>l. pebble_layer s = (Return l, s)"
proof (cases "first_relation_data (database_relations s)")
  case None
  with assms show ?thesis by (simp add: update_no_data)
next
  case (Some r)
  with assms show ?thesis
    by (cases r) (simp_all add: update_bad_data pebble_layer_cases)
qed

lemma update_keeps_inputs:
  assumes "can_connect s" and "pebble_layer s = (Return l, s')"
  shows "pebble_layer (snd (update_layer_and_restart s)) =
           (Return l, snd (update_layer_and_restart s))"
    and "can_connect (snd (update_layer_and_restart s))"
  using assms by (auto simp: update_reachable pebble_layer_Return_iff)

text \<open>A port in the range is opened, and the configuration change then is the
  reconciliation of the unit with that port opened.\<close>

lemma handle_ports_in_range:
  "1 \<le> config_server_port s \<Longrightarrow> config_server_port s \<le> 65535 \<Longrightarrow>
   handle_ports s = (Return (), s\<lparr>opened_ports := {config_server_port s}\<rparr>)"
  by (simp add: handle_ports_def set_ports_def)

lemma on_config_changed_in_range:
  "config_server_port s \<noteq> 22 \<Longrightarrow> 1 \<le> config_server_port s \<Longrightarrow>
   config_server_port s \<le> 65535 \<Longrightarrow>
   on_config_changed s =
     update_layer_and_restart (s\<lparr>opened_ports := {config_server_port s}\<rparr>)"
  by (simp add: on_config_changed_def handle_ports_in_range)

text \<open>Adding the layer to a plan that holds no service under another name leaves exactly
  the layer's services in the plan.\<close>

lemma add_layer_replaces_plan:
  assumes "dom p \<subseteq> {pebble_service_name}"
  shows "p ++ layer_services (layer_of c e) = layer_services (layer_of c e)"
proof
  fix k
  show "(p ++ layer_services (layer_of c e)) k = layer_services (layer_of c e) k"
    using assms by (cases "k = pebble_service_name") (auto simp: layer_of_def map_add_def)
qed

subsection \<open>Workload ready without a database relation\<close>

text \<open>C1, as amended. With the default port 8000, a reachable supervisor and no database
  relation, reconciliation produces no service definition: reading the relation data sets
  the status to Waiting ("Waiting for database relation") and raises \<open>SystemExit(0)\<close>, so
  the plan, the added layers, the restarts and the reported version stay as they were. The
  command the charm renders for port 8000 is exactly
  \<open>uvicorn api_demo_server.app:app --host=0.0.0.0 --port=8000\<close>, and the environment it
  builds from a connection record without entries has the four \<open>DEMO_SERVER_DB_*\<close>
  values null.\<close>

theorem workload_ready_without_relation:
  assumes "config_server_port s = 8000"
    and "can_connect s"
    and "database_relations s = []"
  shows "update_layer_and_restart s =
           (Raise (SystemExit 0),
            s\<lparr>unit_status := WaitingStatus ''Waiting for database relation''\<rparr>)
         \<and> command_of (config_server_port s) =
             ''uvicorn api_demo_server.app:app --host=0.0.0.0 --port=8000''
         \<and> environment_of Map.empty ''DEMO_SERVER_DB_HOST'' = Some None
         \<and> environment_of Map.empty ''DEMO_SERVER_DB_PORT'' = Some None
         \<and> environment_of Map.empty ''DEMO_SERVER_DB_USER'' = Some None
         \<and> environment_of Map.empty ''DEMO_SERVER_DB_PASSWORD'' = Some None"
proof -
  from assms(3) have "first_relation_data (database_relations s) = None" by simp
  with assms(2) have "update_layer_and_restart s =
           (Raise (SystemExit 0),
            s\<lparr>unit_status := WaitingStatus ''Waiting for database relation''\<rparr>)"
    by (rule update_no_data)
  then show ?thesis
    by (simp add: assms(1) command_of_8000 environment_of_def)
qed

text \<open>C1, the amended statement at the sample unit.\<close>

theorem workload_ready_without_relation_witness:
  "config_server_port initial_unit = 8000
   \<and> can_connect initial_unit
   \<and> database_relations initial_unit = []
   \<and> fst (update_layer_and_restart initial_unit) = Raise (SystemExit 0)
   \<and> unit_status (snd (update_layer_and_restart initial_unit)) =
       WaitingStatus ''Waiting for database relation''
   \<and> plan (snd (update_layer_and_restart initial_unit)) = Map.empty
   \<and> restarted (snd (update_layer_and_restart initial_unit)) = []"
proof -
  have port: "config_server_port initial_unit = 8000"
    and reachable: "can_connect initial_unit"
    and none: "database_relations initial_unit = []"
    by (simp_all add: initial_unit_def)
  from workload_ready_without_relation [OF port reachable none]
  have "update_layer_and_restart initial_unit =
          (Raise (SystemExit 0),
           initial_unit\<lparr>unit_status := WaitingStatus ''Waiting for database relation''\<rparr>)"
    by blast
  then show ?thesis by (simp add: initial_unit_def)
qed

text \<open>C1 as stated fails: for the sample unit (port 8000, supervisor reachable, no
  database relation) the handler raises, the status is Waiting and not Active, and no
  layer has been added.\<close>

theorem workload_ready_without_relation_counterexample:
  "config_server_port initial_unit = 8000
   \<and> can_connect initial_unit
   \<and> database_relations initial_unit = []
   \<and> update_layer_and_restart initial_unit =
       (Raise (SystemExit 0),
        initial_unit\<lparr>unit_status := WaitingStatus ''Waiting for database relation''\<rparr>)
   \<and> unit_status (snd (update_layer_and_restart initial_unit)) \<noteq> ActiveStatus ''''
   \<and> added_layers (snd (update_layer_and_restart initial_unit)) = []"
proof -
  have "first_relation_data (database_relations initial_unit) = None"
    by (simp add: initial_unit_def)
  moreover have "can_connect initial_unit"
    by (simp add: initial_unit_def)
  ultimately have "update_layer_and_restart initial_unit =
       (Raise (SystemExit 0),
        initial_unit\<lparr>unit_status := WaitingStatus ''Waiting for database relation''\<rparr>)"
    by (rule update_no_data [rotated])
  then show ?thesis by (simp add: initial_unit_def)
qed

subsection \<open>The get-db-info action without relation data\<close>

text \<open>C2, as amended. When no database relation data is available (there is no
  relation, or every relation's data is empty), the get-db-info action, for either value
  of \<open>show-password\<close>, sets exactly one result, the single document
  \<open>{"result": "No database connected"}\<close> (with a capital N), and raises the
  \<open>SystemExit(0)\<close> again after setting it; the status is Waiting.\<close>

theorem get_db_info_without_relation:
  assumes "\<forall>rel \<in> set (database_relations s). snd rel = []"
  shows "on_get_db_info_action ev s =
           (Raise (SystemExit 0),
            ev\<lparr>results := results ev @ [[''result'' \<mapsto> Some ''No database connected'']]\<rparr>,
            s\<lparr>unit_status := WaitingStatus ''Waiting for database relation''\<rparr>)"
proof -
  from assms have "first_relation_data (database_relations s) = None"
    by (rule first_relation_data_empty)
  then show ?thesis
    by (simp add: on_get_db_info_action_def fetch_no_data set_results_def)
qed

text \<open>C2, the amended statement at the sample unit, for both values of the parameter.\<close>

theorem get_db_info_without_relation_witness:
  "database_relations initial_unit = []
   \<and> on_get_db_info_action \<lparr>show_password = True, results = []\<rparr> initial_unit =
       (Raise (SystemExit 0),
        \<lparr>show_password = True,
         results = [[''result'' \<mapsto> Some ''No database connected'']]\<rparr>,
        initial_unit\<lparr>unit_status := WaitingStatus ''Waiting for database relation''\<rparr>)
   \<and> on_get_db_info_action \<lparr>show_password = False, results = []\<rparr> initial_unit =
       (Raise (SystemExit 0),
        \<lparr>show_password = False,
         results = [[''result'' \<mapsto> Some ''No database connected'']]\<rparr>,
        initial_unit\<lparr>unit_status := WaitingStatus ''Waiting for database relation''\<rparr>)"
proof -
  have none: "\<forall>rel \<in> set (database_relations initial_unit). snd rel = []"
    by (simp add: initial_unit_def)
  have "database_relations initial_unit = []"
    by (simp add: initial_unit_def)
  with get_db_info_without_relation [OF none, of "\<lparr>show_password = True, results = []\<rparr>"]
       get_db_info_without_relation [OF none, of "\<lparr>show_password = False, results = []\<rparr>"]
  show ?thesis by simp
qed

text \<open>C2 as stated fails: at the sample unit the document set by the action is not
  \<open>{"result": "no database connected"}\<close>.\<close>

theorem get_db_info_without_relation_counterexample:
  "database_relations initial_unit = []
   \<and> results (fst (snd (on_get_db_info_action \<lparr>show_password = False, results = []\<rparr>
                          initial_unit)))
       \<noteq> [[''result'' \<mapsto> Some ''no database connected'']]"
proof -
  have "results (fst (snd (on_get_db_info_action \<lparr>show_password = False, results = []\<rparr>
                          initial_unit)))
        = [[''result'' \<mapsto> Some ''No database connected'']]"
    by (simp add: on_get_db_info_action_def fetch_postgres_relation_data_def initial_unit_def
                  set_results_def)
  moreover have "[''result'' \<mapsto> Some ''No database connected''] ''result''
                 \<noteq> [''result'' \<mapsto> Some ''no database connected''] ''result''"
    by simp
  then have "[''result'' \<mapsto> Some ''No database connected'']
                 \<noteq> [''result'' \<mapsto> Some ''no database connected'']"
    by metis
  ultimately show ?thesis by (simp add: initial_unit_def)
qed

subsection \<open>Idempotence\<close>

text \<open>C3, as amended. Idempotence of reconciliation, for a supervisor whose plan holds no
  service under a name other than \<open>fastapi-service\<close>: when a reconciliation with a
  reachable supervisor and available relation data is followed by a second one, the
  second one computes the same service definition, returns normally, restarts nothing,
  adds no layer and leaves the plan; the two together restart the managed process exactly
  once when the first one had to apply the definition (and not at all when the plan held
  it already).\<close>

theorem reconciliation_idempotent:
  assumes "can_connect s"
    and "pebble_layer s = (Return l, s')"
    and "dom (plan s) \<subseteq> {pebble_service_name}"
  shows "fst (update_layer_and_restart s) = Return ()
         \<and> pebble_layer (snd (update_layer_and_restart s)) =
             (Return l, snd (update_layer_and_restart s))
         \<and> fst (update_layer_and_restart (snd (update_layer_and_restart s))) = Return ()
         \<and> restarted (snd (update_layer_and_restart (snd (update_layer_and_restart s)))) =
             restarted (snd (update_layer_and_restart s))
         \<and> added_layers (snd (update_layer_and_restart (snd (update_layer_and_restart s)))) =
             added_layers (snd (update_layer_and_restart s))
         \<and> plan (snd (update_layer_and_restart (snd (update_layer_and_restart s)))) =
             plan (snd (update_layer_and_restart s))
         \<and> restarted (snd (update_layer_and_restart (snd (update_layer_and_restart s)))) =
             restarted s @ (if plan s \<noteq> layer_services l then [pebble_service_name] else [])"
proof -
  let ?s1 = "snd (update_layer_and_restart s)"
  from assms(2) obtain d where
    l: "l = layer_of (command_of (config_server_port s)) (environment_of d)"
    by (auto simp: pebble_layer_Return_iff)
  have ok: "fst (update_layer_and_restart s) = Return ()"
    using assms(1,2) by (simp add: update_reachable)
  have first: "restarted ?s1 =
      restarted s @ (if plan s \<noteq> layer_services l then [pebble_service_name] else [])"
    using assms(1,2) by (simp add: update_reachable)
  have "plan ?s1 = (if plan s \<noteq> layer_services l then plan s ++ layer_services l else plan s)"
    using assms(1,2) by (simp add: update_reachable)
  then have applied: "plan ?s1 = layer_services l"
    using assms(3) by (simp add: l add_layer_replaces_plan)
  have desired: "pebble_layer ?s1 = (Return l, ?s1)"
    and reachable: "can_connect ?s1"
    using assms(1,2) by (simp_all add: update_keeps_inputs)
  have second: "update_layer_and_restart ?s1 =
      (Return (), ?s1\<lparr>workload_version := Some (version ?s1), unit_status := ActiveStatus ''''\<rparr>)"
    using reachable desired applied by (simp add: update_reachable)
  show ?thesis
    by (simp add: second first ok desired)
qed

text \<open>C3, the amended statement at the related sample unit, whose plan is empty: the
  first reconciliation restarts the service, the second one does not.\<close>

theorem reconciliation_idempotent_witness:
  "can_connect related_unit
   \<and> plan related_unit = Map.empty
   \<and> restarted related_unit = []
   \<and> fst (update_layer_and_restart related_unit) = Return ()
   \<and> restarted (snd (update_layer_and_restart related_unit)) = [pebble_service_name]
   \<and> fst (update_layer_and_restart (snd (update_layer_and_restart related_unit))) = Return ()
   \<and> restarted (snd (update_layer_and_restart (snd (update_layer_and_restart related_unit)))) =
       [pebble_service_name]"
proof -
  let ?l = "layer_of (command_of 8000) (environment_of postgres_db_data)"
  let ?s1 = "snd (update_layer_and_restart related_unit)"
  have reachable: "can_connect related_unit"
    and unrestarted: "restarted related_unit = []"
    and empty: "plan related_unit = Map.empty"
    by (simp_all add: related_unit_def initial_unit_def)
  have alone: "dom (plan related_unit) \<subseteq> {pebble_service_name}"
    by (simp add: empty)
  have differs: "plan related_unit \<noteq> layer_services ?l"
    using layer_services_nonempty [of "command_of 8000" "environment_of postgres_db_data"]
    by (simp add: empty)
  from reconciliation_idempotent [OF reachable pebble_layer_related alone]
  have "fst (update_layer_and_restart related_unit) = Return ()"
    and "fst (update_layer_and_restart ?s1) = Return ()"
    and "restarted (snd (update_layer_and_restart ?s1)) = restarted ?s1"
    and "restarted (snd (update_layer_and_restart ?s1)) =
           restarted related_unit @
             (if plan related_unit \<noteq> layer_services ?l then [pebble_service_name] else [])"
    by blast+
  with differs unrestarted reachable empty show ?thesis by simp
qed

text \<open>C3 as stated fails: at the sample unit whose plan holds a service of another name,
  both reconciliations return normally and compute the same service definition, yet the
  managed process is restarted both times.\<close>

theorem reconciliation_idempotent_counterexample:
  "can_connect shared_unit
   \<and> restarted shared_unit = []
   \<and> pebble_layer shared_unit =
       (Return (layer_of (command_of 8000) (environment_of postgres_db_data)), shared_unit)
   \<and> fst (update_layer_and_restart shared_unit) = Return ()
   \<and> pebble_layer (snd (update_layer_and_restart shared_unit)) =
       (Return (layer_of (command_of 8000) (environment_of postgres_db_data)),
        snd (update_layer_and_restart shared_unit))
   \<and> fst (update_layer_and_restart (snd (update_layer_and_restart shared_unit))) = Return ()
   \<and> restarted (snd (update_layer_and_restart (snd (update_layer_and_restart shared_unit)))) =
       [pebble_service_name, pebble_service_name]"
proof -
  let ?l = "layer_of (command_of 8000) (environment_of postgres_db_data)"
  let ?s1 = "snd (update_layer_and_restart shared_unit)"
  have reachable: "can_connect shared_unit"
    and unrestarted: "restarted shared_unit = []"
    and held: "plan shared_unit = [''exporter'' \<mapsto> other_service]"
    by (simp_all add: shared_unit_def related_unit_def initial_unit_def)
  have desired: "pebble_layer shared_unit = (Return ?l, shared_unit)"
  proof -
    have "database_relations shared_unit = database_relations related_unit"
      and "config_server_port shared_unit = 8000"
      by (simp_all add: shared_unit_def related_unit_def initial_unit_def)
    then show ?thesis
      by (simp add: pebble_layer_cases first_relation_data_related)
  qed
  have absent: "layer_services ?l ''exporter'' = None"
    by (simp add: layer_of_def pebble_service_name_def)
  have "plan shared_unit ''exporter'' \<noteq> layer_services ?l ''exporter''"
    by (simp add: held absent)
  then have differs: "plan shared_unit \<noteq> layer_services ?l"
    by metis
  have "(plan shared_unit ++ layer_services ?l) ''exporter'' \<noteq> layer_services ?l ''exporter''"
    by (simp add: held absent map_add_def)
  then have differs_again: "plan shared_unit ++ layer_services ?l \<noteq> layer_services ?l"
    by metis
  have first_ok: "fst (update_layer_and_restart shared_unit) = Return ()"
    and once: "restarted ?s1 = [pebble_service_name]"
    and merged: "plan ?s1 = plan shared_unit ++ layer_services ?l"
    using reachable desired differs unrestarted by (simp_all add: update_reachable)
  have desired1: "pebble_layer ?s1 = (Return ?l, ?s1)"
    and reachable1: "can_connect ?s1"
    using reachable desired by (simp_all add: update_keeps_inputs)
  have second_ok: "fst (update_layer_and_restart ?s1) = Return ()"
    and twice: "restarted (snd (update_layer_and_restart ?s1)) =
                  [pebble_service_name, pebble_service_name]"
    using reachable1 desired1 differs_again once by (simp_all add: update_reachable merged)
  from reachable unrestarted desired first_ok desired1 second_ok twice
  show ?thesis by blast
qed

subsection \<open>The apply-on-change decision\<close>

text \<open>C4, as amended. The apply-on-change decision compares the services sections only:
  when the supervisor is reachable and the new service definition \<open>l\<close> has been computed,
  the layer is added and the managed process restarted if and only if the services of the
  currently active plan differ from the services of \<open>l\<close>; the summary and the description
  of the definition take no part in the comparison.\<close>

theorem restart_iff_services_differ:
  assumes "can_connect s"
    and "pebble_layer s = (Return l, s')"
  shows "restarted (snd (update_layer_and_restart s)) =
           restarted s @ (if plan s \<noteq> layer_services l then [pebble_service_name] else [])
         \<and> added_layers (snd (update_layer_and_restart s)) =
             added_layers s @ (if plan s \<noteq> layer_services l then [(''fastapi_demo'', l)] else [])"
  using assms by (simp add: update_reachable)

text \<open>C4, the amended statement at two sample units: an empty plan differs from the
  definition's services, so the service is restarted; a plan that holds them is left
  alone.\<close>

theorem restart_iff_services_differ_witness:
  "can_connect related_unit \<and> can_connect applied_unit
   \<and> restarted (snd (update_layer_and_restart related_unit)) = [pebble_service_name]
   \<and> restarted (snd (update_layer_and_restart applied_unit)) = []"
proof -
  let ?l = "layer_of (command_of 8000) (environment_of postgres_db_data)"
  have reachable: "can_connect related_unit" "can_connect applied_unit"
    and unrestarted: "restarted related_unit = []" "restarted applied_unit = []"
    and empty: "plan related_unit = Map.empty"
    and same: "plan applied_unit = layer_services ?l"
    by (simp_all add: applied_unit_def related_unit_def initial_unit_def)
  have differs: "plan related_unit \<noteq> layer_services ?l"
    using layer_services_nonempty [of "command_of 8000" "environment_of postgres_db_data"]
    by (simp add: empty)
  from restart_iff_services_differ [OF reachable(1) pebble_layer_related]
       restart_iff_services_differ [OF reachable(2) pebble_layer_applied]
  have "restarted (snd (update_layer_and_restart related_unit)) =
          restarted related_unit @ [pebble_service_name]"
    and "restarted (snd (update_layer_and_restart applied_unit)) = restarted applied_unit"
    using differs same by simp_all
  with reachable unrestarted show ?thesis by simp
qed

text \<open>C4 as stated fails: at the sample unit whose plan holds the definition's services,
  the active document taken in its entirety differs from the newly computed one (the
  plan's document has no summary and no description), yet nothing is restarted and no
  layer is added.\<close>

theorem restart_decision_counterexample:
  "pebble_layer applied_unit =
     (Return (layer_of (command_of 8000) (environment_of postgres_db_data)), applied_unit)
   \<and> plan_to_dict (plan applied_unit) \<noteq>
       layer_to_dict (layer_of (command_of 8000) (environment_of postgres_db_data))
   \<and> restarted (snd (update_layer_and_restart applied_unit)) = restarted applied_unit
   \<and> added_layers (snd (update_layer_and_restart applied_unit)) = added_layers applied_unit"
proof -
  let ?l = "layer_of (command_of 8000) (environment_of postgres_db_data)"
  have "doc_summary (plan_to_dict (plan applied_unit)) \<noteq> doc_summary (layer_to_dict ?l)"
    by (simp add: plan_to_dict_def layer_to_dict_def layer_of_def)
  then have differ: "plan_to_dict (plan applied_unit) \<noteq> layer_to_dict ?l"
    by metis
  have reachable: "can_connect applied_unit"
    and same: "plan applied_unit = layer_services ?l"
    by (simp_all add: applied_unit_def related_unit_def initial_unit_def)
  from reachable pebble_layer_applied same
  have "update_layer_and_restart applied_unit =
          (Return (), applied_unit\<lparr>workload_version := Some (version applied_unit),
                                   unit_status := ActiveStatus ''''\<rparr>)"
    by (simp add: update_reachable)
  with differ pebble_layer_applied show ?thesis by simp
qed

subsection \<open>Configuration changes\<close>

text \<open>C5. For a configuration-changed notification with the configured port equal to 22,
  the unit status becomes Blocked with the message
  "Invalid port number, 22 is reserved for SSH" and nothing else changes: the opened
  ports, the plan, the added layers, the restarts and the reported version are as
  before.\<close>

theorem on_config_changed_port_22:
  assumes "config_server_port s = 22"
  shows "on_config_changed s =
           (Return (),
            s\<lparr>unit_status := BlockedStatus ''Invalid port number, 22 is reserved for SSH''\<rparr>)
         \<and> opened_ports (snd (on_config_changed s)) = opened_ports s
         \<and> plan (snd (on_config_changed s)) = plan s
         \<and> added_layers (snd (on_config_changed s)) = added_layers s
         \<and> restarted (snd (on_config_changed s)) = restarted s
         \<and> workload_version (snd (on_config_changed s)) = workload_version s"
  using assms by (simp add: on_config_changed_def)

text \<open>C5 at the sample unit with port 22.\<close>

theorem on_config_changed_port_22_witness:
  "config_server_port (initial_unit\<lparr>config_server_port := 22\<rparr>) = 22
   \<and> unit_status (snd (on_config_changed (initial_unit\<lparr>config_server_port := 22\<rparr>))) =
       BlockedStatus ''Invalid port number, 22 is reserved for SSH''
   \<and> opened_ports (snd (on_config_changed (initial_unit\<lparr>config_server_port := 22\<rparr>))) = {}
   \<and> restarted (snd (on_config_changed (initial_unit\<lparr>config_server_port := 22\<rparr>))) = []"
proof -
  let ?s = "initial_unit\<lparr>config_server_port := 22\<rparr>"
  have port: "config_server_port ?s = 22" by simp
  from on_config_changed_port_22 [OF port]
  have "on_config_changed ?s =
          (Return (),
           ?s\<lparr>unit_status := BlockedStatus ''Invalid port number, 22 is reserved for SSH''\<rparr>)"
    by blast
  then show ?thesis by (simp add: initial_unit_def)
qed

text \<open>C6, as amended. For every configured port \<open>p\<close> other than 22 in the range 1 to
  65535, while the supervisor is reachable and the database relation supplies connection
  data, handling a configuration-changed notification returns normally with the unit
  status Active, and the opened ports contain \<open>p\<close>.\<close>

theorem config_changed_active:
  assumes "config_server_port s = p"
    and "p \<noteq> 22" and "1 \<le> p" and "p \<le> 65535"
    and "can_connect s"
    and "fst (fetch_postgres_relation_data s) = Return d"
  shows "fst (on_config_changed s) = Return ()
         \<and> unit_status (snd (on_config_changed s)) = ActiveStatus ''''
         \<and> p \<in> opened_ports (snd (on_config_changed s))"
proof -
  let ?s = "s\<lparr>opened_ports := {config_server_port s}\<rparr>"
  from assms(6) have "first_relation_data (database_relations s) = Some (Return d)"
    by (auto simp: fetch_postgres_relation_data_def split: option.splits)
  then have "pebble_layer ?s =
      (Return (layer_of (command_of (config_server_port ?s)) (environment_of d)), ?s)"
    by (simp add: pebble_layer_cases)
  moreover have "can_connect ?s"
    using assms(5) by simp
  ultimately have "fst (update_layer_and_restart ?s) = Return ()"
    and "unit_status (snd (update_layer_and_restart ?s)) = ActiveStatus ''''"
    by (simp_all add: update_reachable)
  moreover have "on_config_changed s = update_layer_and_restart ?s"
    using assms(1-4) by (simp add: on_config_changed_in_range)
  moreover have "opened_ports (snd (update_layer_and_restart ?s)) = {p}"
    using assms(1) by (simp add: update_opened_ports)
  ultimately show ?thesis by simp
qed

text \<open>C6, the amended statement at the related sample unit with port 1234.\<close>

theorem config_changed_active_witness:
  "config_server_port (related_unit\<lparr>config_server_port := 1234\<rparr>) = 1234
   \<and> can_connect (related_unit\<lparr>config_server_port := 1234\<rparr>)
   \<and> fst (fetch_postgres_relation_data (related_unit\<lparr>config_server_port := 1234\<rparr>)) =
       Return postgres_db_data
   \<and> unit_status (snd (on_config_changed (related_unit\<lparr>config_server_port := 1234\<rparr>))) =
       ActiveStatus ''''
   \<and> 1234 \<in> opened_ports (snd (on_config_changed (related_unit\<lparr>config_server_port := 1234\<rparr>)))"
proof -
  let ?s = "related_unit\<lparr>config_server_port := 1234\<rparr>"
  have port: "config_server_port ?s = 1234" by simp
  have reachable: "can_connect ?s"
    by (simp add: related_unit_def initial_unit_def)
  have "first_relation_data (database_relations ?s) = Some (Return postgres_db_data)"
    using first_relation_data_related by simp
  then have data: "fst (fetch_postgres_relation_data ?s) = Return postgres_db_data"
    by (simp add: fetch_some)
  from config_changed_active [OF port _ _ _ reachable data] port reachable data
  show ?thesis by simp
qed

text \<open>C6 as stated fails: with port 1234 and an unreachable supervisor the status after
  the configuration change is Waiting, not Active.\<close>

theorem config_changed_active_counterexample:
  "config_server_port (related_unit\<lparr>config_server_port := 1234, can_connect := False\<rparr>) = 1234
   \<and> unit_status (snd (on_config_changed
        (related_unit\<lparr>config_server_port := 1234, can_connect := False\<rparr>))) =
       WaitingStatus ''Waiting for Pebble in workload container''
   \<and> unit_status (snd (on_config_changed
        (related_unit\<lparr>config_server_port := 1234, can_connect := False\<rparr>))) \<noteq> ActiveStatus ''''"
  by (simp add: on_config_changed_def handle_ports_def set_ports_def update_unreachable)

text \<open>C10, as amended. On a configuration-changed notification with a port other than 22
  in the range 1 to 65535 the port is opened before reconciliation runs, whatever the
  supervisor's reachability: the handler is the reconciliation of the unit with the port
  already opened, the opened ports contain the configured port afterwards in every case,
  and with an unreachable supervisor the status ends as Waiting.\<close>

theorem port_opened_before_reconciliation:
  assumes "config_server_port s \<noteq> 22"
    and "1 \<le> config_server_port s" and "config_server_port s \<le> 65535"
  shows "handle_ports s = (Return (), s\<lparr>opened_ports := {config_server_port s}\<rparr>)
         \<and> on_config_changed s =
             update_layer_and_restart (s\<lparr>opened_ports := {config_server_port s}\<rparr>)
         \<and> config_server_port s \<in> opened_ports (snd (on_config_changed s))
         \<and> (\<not> can_connect s \<longrightarrow>
              unit_status (snd (on_config_changed s)) =
                WaitingStatus ''Waiting for Pebble in workload container'')"
proof -
  let ?s = "s\<lparr>opened_ports := {config_server_port s}\<rparr>"
  have 1: "handle_ports s = (Return (), ?s)"
    using assms(2,3) by (rule handle_ports_in_range)
  have 2: "on_config_changed s = update_layer_and_restart ?s"
    using assms by (rule on_config_changed_in_range)
  have 3: "config_server_port s \<in> opened_ports (snd (on_config_changed s))"
    by (simp add: 2 update_opened_ports)
  have 4: "unit_status (snd (on_config_changed s)) =
             WaitingStatus ''Waiting for Pebble in workload container''"
    if "\<not> can_connect s"
  proof -
    from that have "\<not> can_connect ?s" by simp
    then show ?thesis by (simp add: 2 update_unreachable)
  qed
  from 1 2 3 4 show ?thesis by blast
qed

text \<open>C10, the amended statement at the sample unit with port 1234 and an unreachable
  supervisor.\<close>

theorem port_opened_before_reconciliation_witness:
  "config_server_port (initial_unit\<lparr>config_server_port := 1234, can_connect := False\<rparr>) \<noteq> 22
   \<and> 1 \<le> config_server_port (initial_unit\<lparr>config_server_port := 1234, can_connect := False\<rparr>)
   \<and> config_server_port (initial_unit\<lparr>config_server_port := 1234, can_connect := False\<rparr>)
       \<le> 65535
   \<and> \<not> can_connect (initial_unit\<lparr>config_server_port := 1234, can_connect := False\<rparr>)
   \<and> 1234 \<in> opened_ports (snd (on_config_changed
        (initial_unit\<lparr>config_server_port := 1234, can_connect := False\<rparr>)))
   \<and> unit_status (snd (on_config_changed
        (initial_unit\<lparr>config_server_port := 1234, can_connect := False\<rparr>))) =
       WaitingStatus ''Waiting for Pebble in workload container''"
proof -
  let ?s = "initial_unit\<lparr>config_server_port := 1234, can_connect := False\<rparr>"
  have port: "config_server_port ?s \<noteq> 22"
    and low: "1 \<le> config_server_port ?s"
    and high: "config_server_port ?s \<le> 65535"
    by simp_all
  from port_opened_before_reconciliation [OF port low high]
  have opened: "config_server_port ?s \<in> opened_ports (snd (on_config_changed ?s))"
    and waiting: "\<not> can_connect ?s \<longrightarrow>
      unit_status (snd (on_config_changed ?s)) =
        WaitingStatus ''Waiting for Pebble in workload container''"
    by blast+
  from opened waiting show ?thesis by simp
qed

text \<open>C10 as stated fails: with port 70000, a port other than 22, opening the port is
  refused, the handler raises before reconciliation runs, and the opened ports do not
  contain the configured port.\<close>

theorem port_opened_before_reconciliation_counterexample:
  "config_server_port (initial_unit\<lparr>config_server_port := 70000, can_connect := False\<rparr>) \<noteq> 22
   \<and> fst (on_config_changed (initial_unit\<lparr>config_server_port := 70000, can_connect := False\<rparr>))
       = Raise ModelError
   \<and> 70000 \<notin> opened_ports (snd (on_config_changed
        (initial_unit\<lparr>config_server_port := 70000, can_connect := False\<rparr>)))
   \<and> unit_status (snd (on_config_changed
        (initial_unit\<lparr>config_server_port := 70000, can_connect := False\<rparr>))) = UnknownStatus"
  by (simp add: on_config_changed_def handle_ports_def set_ports_def initial_unit_def)

subsection \<open>An unreachable supervisor\<close>

text \<open>C7. Whenever reconciliation runs and the supervisor is unreachable, the unit status
  is set to Waiting ("Waiting for Pebble in workload container") and nothing else is
  done: no layer is added, the plan is as before, the managed process is not restarted
  and no workload version is reported.\<close>

theorem update_layer_and_restart_unreachable:
  assumes "\<not> can_connect s"
  shows "update_layer_and_restart s =
           (Return (),
            s\<lparr>unit_status := WaitingStatus ''Waiting for Pebble in workload container''\<rparr>)
         \<and> added_layers (snd (update_layer_and_restart s)) = added_layers s
         \<and> plan (snd (update_layer_and_restart s)) = plan s
         \<and> restarted (snd (update_layer_and_restart s)) = restarted s
         \<and> workload_version (snd (update_layer_and_restart s)) = workload_version s"
  using assms by (simp add: update_layer_and_restart_def)

text \<open>C7 at the related sample unit with the supervisor unreachable.\<close>

theorem update_layer_and_restart_unreachable_witness:
  "\<not> can_connect (related_unit\<lparr>can_connect := False\<rparr>)
   \<and> unit_status (snd (update_layer_and_restart (related_unit\<lparr>can_connect := False\<rparr>))) =
       WaitingStatus ''Waiting for Pebble in workload container''
   \<and> added_layers (snd (update_layer_and_restart (related_unit\<lparr>can_connect := False\<rparr>))) = []
   \<and> restarted (snd (update_layer_and_restart (related_unit\<lparr>can_connect := False\<rparr>))) = []
   \<and> workload_version (snd (update_layer_and_restart (related_unit\<lparr>can_connect := False\<rparr>))) = None"
proof -
  let ?s = "related_unit\<lparr>can_connect := False\<rparr>"
  have unreachable: "\<not> can_connect ?s" by simp
  from update_layer_and_restart_unreachable [OF unreachable]
  have "update_layer_and_restart ?s =
          (Return (),
           ?s\<lparr>unit_status := WaitingStatus ''Waiting for Pebble in workload container''\<rparr>)"
    by blast
  then show ?thesis by (simp add: related_unit_def initial_unit_def)
qed

subsection \<open>The start counter in the peer data\<close>




text \<open>C9. Reading and writing peer state differ when the peer relation does not exist:
  \<open>get_peer_data\<close> returns the empty mapping, \<open>set_peer_data\<close> raises on the missing
  relation and writes nothing, so a unit-start notification delivered before the peer
  relation exists makes the \<open>_count\<close> handler raise instead of recording the counter.\<close>

theorem peer_data_without_relation:
  assumes "peers s = None"
  shows "get_peer_data key s = JObj []
         \<and> set_peer_data key data s = (Raise AttributeError, s)
         \<and> count int_str s = (Raise AttributeError, s)"
  using assms
  by (simp add: get_peer_data_def set_peer_data_def count_def json_get_def int_of_json_def)

text \<open>C9 at the sample unit, which has no peer relation.\<close>

theorem peer_data_without_relation_witness:
  "peers initial_unit = None
   \<and> get_peer_data ''unit_stats'' initial_unit = JObj []
   \<and> count refuse_str initial_unit = (Raise AttributeError, initial_unit)"
proof -
  have absent: "peers initial_unit = None" by (simp add: initial_unit_def)
  from peer_data_without_relation [OF absent, of "''unit_stats''" _ refuse_str] absent
  show ?thesis by simp
qed

end
